theory Spec2Isabelle
  imports Main "HOL-Library.Word"
begin

section \<open>Keep-alive closures of the serial young generation\<close>

text \<open>
  The development embeds the two methods of
  \<^verbatim>\<open>src/hotspot/share/gc/serial/defNewGeneration.inline.hpp\<close>:
  \<^verbatim>\<open>DefNewGeneration::KeepAliveClosure::do_oop_work\<close> (the general processor) and
  \<^verbatim>\<open>DefNewGeneration::FastKeepAliveClosure::do_oop_work\<close> (the fast path).
  Both are templates over the slot type \<^verbatim>\<open>T\<close>; the model follows the instance
  where a slot holds a full-width reference, so a slot address and a reference value are
  both 64-bit addresses and pointer comparison is the unsigned order on words.
\<close>

subsection \<open>Addresses, heap state and outcomes\<close>

type_synonym addr = "64 word"
type_synonym oop = "64 word"

text \<open>
  The mutable state a call can touch: the heap memory, read and written one slot at a
  time, and the remembered set behind \<^verbatim>\<open>_rs\<close>. The type of the remembered set is
  left open, so that the same methods can run on a card table and on a recorder of the
  calls the remembered set receives.
\<close>

record 'rs gc_state =
  mem :: "addr \<Rightarrow> oop"
  remset :: "'rs"

text \<open>
  A failed \<^verbatim>\<open>assert\<close> aborts the VM. The outcome then carries the state at the
  moment the assertion fired.
\<close>

datatype error = InvariantViolation

type_synonym 'rs outcome = "(error \<times> 'rs gc_state) + 'rs gc_state"

fun final_state :: "'rs outcome \<Rightarrow> 'rs gc_state" where
  "final_state (Inl (e, s)) = s"
| "final_state (Inr s) = s"

subsection \<open>Collaborators that are declared outside the file\<close>

text \<open>
  Modelled from the spec: the heap topology behind \<^verbatim>\<open>GenCollectedHeap::heap()\<close>
  is declared in \<^verbatim>\<open>gc/shared/genCollectedHeap.hpp\<close>, which is not among the sources.
  The spec describes a reserved heap range in which the generation being collected (the
  young generation) lies below a generation boundary and the older generation at and
  above it.
\<close>

record heap_layout =
  heap_start :: addr
  young_end :: addr
  heap_end :: addr

text \<open>
  Modelled from the spec: \<^verbatim>\<open>is_in_reserved\<close> is the membership query of the whole
  reserved heap range (young and old generation alike), as the comment in the general
  processor says: "We could check that p is also in the old generation, but dirty cards
  in the young gen are never scanned, so the extra check probably isn't worthwhile."
\<close>

definition is_in_reserved :: "heap_layout \<Rightarrow> addr \<Rightarrow> bool" where
  "is_in_reserved h p = (heap_start h \<le> p \<and> p < heap_end h)"

definition is_in_young :: "heap_layout \<Rightarrow> addr \<Rightarrow> bool" where
  "is_in_young h p = (heap_start h \<le> p \<and> p < young_end h)"

definition is_in_old :: "heap_layout \<Rightarrow> addr \<Rightarrow> bool" where
  "is_in_old h p = (young_end h \<le> p \<and> p < heap_end h)"

definition layout_ok :: "heap_layout \<Rightarrow> bool" where
  "layout_ok h = (heap_start h \<le> young_end h \<and> young_end h \<le> heap_end h)"

text \<open>
  What is global to the VM rather than a field of a closure: whether the build defines
  \<^verbatim>\<open>ASSERT\<close>, the heap, and the structural part of \<^verbatim>\<open>oopDesc::is_oop\<close>, which
  reads the heap.
\<close>

record vm =
  ASSERT :: bool
  heap :: heap_layout
  well_formed :: "(addr \<Rightarrow> oop) \<Rightarrow> oop \<Rightarrow> bool"

text \<open>
  Modelled from the spec: \<^verbatim>\<open>oopDesc::is_oop\<close> is defined in \<^verbatim>\<open>oops/oop.cpp\<close>,
  which is not among the sources. The spec requires "a well-formed, non-null object
  reference"; the null reference is the address 0.
\<close>

definition is_oop :: "vm \<Rightarrow> (addr \<Rightarrow> oop) \<Rightarrow> oop \<Rightarrow> bool" where
  "is_oop v m obj = (obj \<noteq> 0 \<and> well_formed v m obj)"

text \<open>\<^verbatim>\<open>RawAccess<OOP_NOT_NULL>::oop_load(p)\<close>: a plain load of the slot.\<close>

definition oop_load :: "'rs gc_state \<Rightarrow> addr \<Rightarrow> oop" where
  "oop_load s p = mem s p"

subsection \<open>The closures\<close>

text \<open>
  \<^verbatim>\<open>KeepAliveClosure\<close> has the fields \<^verbatim>\<open>_cl\<close> (the inner closure, used only
  through \<^verbatim>\<open>do_oop_nv\<close>) and \<^verbatim>\<open>_rs\<close> (the remembered set, used only through
  \<^verbatim>\<open>inline_write_ref_field_gc\<close>). \<^verbatim>\<open>FastKeepAliveClosure\<close> derives from it and
  adds \<^verbatim>\<open>_boundary\<close>. Both collaborators are parameters: the inner closure may
  change the whole state, the write barrier the remembered set.
\<close>

record 'rs KeepAliveClosure =
  cl_do_oop_nv :: "addr \<Rightarrow> 'rs gc_state \<Rightarrow> 'rs gc_state"
  rs_inline_write_ref_field_gc :: "addr \<Rightarrow> oop \<Rightarrow> 'rs \<Rightarrow> 'rs"

record 'rs FastKeepAliveClosure = "'rs KeepAliveClosure" +
  boundary :: addr

text \<open>
  The block under \<^verbatim>\<open>#ifdef ASSERT\<close>, the same in both methods: it fires when the
  build is a debug build and the value in the slot is not an oop.
\<close>

definition weak_ref_assert_fails :: "vm \<Rightarrow> 'rs gc_state \<Rightarrow> addr \<Rightarrow> bool" where
  "weak_ref_assert_fails v s p = (ASSERT v \<and> \<not> is_oop v (mem s) (oop_load s p))"

definition KeepAliveClosure_do_oop_work ::
  "vm \<Rightarrow> ('rs, 'm) KeepAliveClosure_scheme \<Rightarrow> addr \<Rightarrow> 'rs gc_state \<Rightarrow> 'rs outcome" where
  "KeepAliveClosure_do_oop_work v this p s =
     (if weak_ref_assert_fails v s p then Inl (InvariantViolation, s)
      else
        let s1 = cl_do_oop_nv this p s in
        if is_in_reserved (heap v) p then
          let obj = oop_load s1 p in
          Inr (s1\<lparr>remset := rs_inline_write_ref_field_gc this p obj (remset s1)\<rparr>)
        else Inr s1)"

definition FastKeepAliveClosure_do_oop_work ::
  "vm \<Rightarrow> ('rs, 'm) FastKeepAliveClosure_scheme \<Rightarrow> addr \<Rightarrow> 'rs gc_state \<Rightarrow> 'rs outcome" where
  "FastKeepAliveClosure_do_oop_work v this p s =
     (if weak_ref_assert_fails v s p then Inl (InvariantViolation, s)
      else
        let s1 = cl_do_oop_nv this p s;
            obj = oop_load s1 p in
        if obj < boundary this \<and> is_in_reserved (heap v) p then
          Inr (s1\<lparr>remset := rs_inline_write_ref_field_gc this p obj (remset s1)\<rparr>)
        else Inr s1)"

subsection \<open>A recorder in place of the remembered set\<close>

text \<open>
  To observe which calls a method makes, the remembered set is replaced by the list of
  the calls received so far. The write barrier appends its two arguments; an inner
  closure that rewrites the heap by \<open>f\<close> appends the slot it was called on.
\<close>

datatype call = InnerCall addr | BarrierCall addr oop

definition record_barrier :: "addr \<Rightarrow> oop \<Rightarrow> call list \<Rightarrow> call list" where
  "record_barrier p obj log = log @ [BarrierCall p obj]"

definition record_inner ::
  "(addr \<Rightarrow> (addr \<Rightarrow> oop) \<Rightarrow> (addr \<Rightarrow> oop)) \<Rightarrow> addr \<Rightarrow> call list gc_state \<Rightarrow> call list gc_state" where
  "record_inner f p s = \<lparr>mem = f p (mem s), remset = remset s @ [InnerCall p]\<rparr>"

subsection \<open>A card table as the remembered set\<close>

text \<open>
  Modelled from the spec: \<^verbatim>\<open>CardTableRS::inline_write_ref_field_gc\<close> is declared in
  \<^verbatim>\<open>gc/shared/cardTableRS.hpp\<close>, which is not among the sources. The spec describes
  the remembered set as a map from fixed-size heap regions (cards) to a dirty or clean
  mark, and the primitive as the one that dirties the card containing the slot it is
  given. A card covers \<open>2 ^ shift\<close> addresses.
\<close>

datatype card = clean_card | dirty_card

type_synonym card_table = "addr \<Rightarrow> card"

definition byte_for :: "nat \<Rightarrow> addr \<Rightarrow> addr" where
  "byte_for shift p = drop_bit shift p"

definition inline_write_ref_field_gc :: "nat \<Rightarrow> addr \<Rightarrow> oop \<Rightarrow> card_table \<Rightarrow> card_table" where
  "inline_write_ref_field_gc shift field new_val ct = ct(byte_for shift field := dirty_card)"

text \<open>
  Modelled from the spec: the inner reachability processor is the closure behind
  \<^verbatim>\<open>_cl\<close>, defined outside the sources. The spec says that after it returns "the
  slot holds either the original or a relocated reference value" and that it is free of
  remembered-set side effects. \<open>relocate fwd\<close> rewrites the slot to where \<open>fwd\<close> moved
  its referent.
\<close>

definition relocate :: "(oop \<Rightarrow> oop) \<Rightarrow> addr \<Rightarrow> (addr \<Rightarrow> oop) \<Rightarrow> (addr \<Rightarrow> oop)" where
  "relocate fwd p m = m(p := fwd (m p))"

definition relocating_inner :: "(oop \<Rightarrow> oop) \<Rightarrow> addr \<Rightarrow> 'rs gc_state \<Rightarrow> 'rs gc_state" where
  "relocating_inner fwd p s = s\<lparr>mem := relocate fwd p (mem s)\<rparr>"

subsection \<open>The heap of the spec's scenarios\<close>

text \<open>
  The spec's scenarios: a boundary \<open>B = 0x4000\<close>, a young object \<open>A = 0x1000\<close> that
  the inner processor moves either to \<open>A' = 0x1200\<close> (still young) or to
  \<open>A'' = 0x9000\<close> (promoted). The heap is reserved from \<open>0x1000\<close> up to \<open>0x10000\<close>;
  cards cover 512 addresses.
\<close>

definition scenario_heap :: heap_layout where
  "scenario_heap = \<lparr>heap_start = 0x1000, young_end = 0x4000, heap_end = 0x10000\<rparr>"

definition scenario_vm :: vm where
  "scenario_vm = \<lparr>ASSERT = True, heap = scenario_heap, well_formed = (\<lambda>m obj. True)\<rparr>"

definition survive :: "oop \<Rightarrow> oop" where
  "survive obj = (if obj = 0x1000 then 0x1200 else obj)"

definition promote :: "oop \<Rightarrow> oop" where
  "promote obj = (if obj = 0x1000 then 0x9000 else obj)"

definition card_closure :: "(oop \<Rightarrow> oop) \<Rightarrow> card_table FastKeepAliveClosure" where
  "card_closure fwd =
     \<lparr>cl_do_oop_nv = relocating_inner fwd,
      rs_inline_write_ref_field_gc = inline_write_ref_field_gc 9,
      boundary = 0x4000\<rparr>"

definition recording_closure :: "(oop \<Rightarrow> oop) \<Rightarrow> call list FastKeepAliveClosure" where
  "recording_closure fwd =
     \<lparr>cl_do_oop_nv = record_inner (relocate fwd),
      rs_inline_write_ref_field_gc = record_barrier,
      boundary = 0x4000\<rparr>"

definition slot_holding :: "addr \<Rightarrow> oop \<Rightarrow> 'rs \<Rightarrow> 'rs gc_state" where
  "slot_holding p obj r = \<lparr>mem = (\<lambda>q. if q = p then obj else 0), remset = r\<rparr>"

definition all_clean :: card_table where
  "all_clean = (\<lambda>c. clean_card)"

section \<open>Properties\<close>

lemmas scenario_defs =
  scenario_vm_def scenario_heap_def card_closure_def recording_closure_def slot_holding_def
  all_clean_def survive_def promote_def relocating_inner_def relocate_def record_inner_def
  record_barrier_def inline_write_ref_field_gc_def weak_ref_assert_fails_def is_oop_def
  oop_load_def is_in_reserved_def is_in_young_def is_in_old_def layout_ok_def

subsection \<open>Which calls the write barrier receives\<close>

text \<open>
  C7, as the code has it. With the recorder as the remembered set, and when the debug
  assertion does not fire, the fast-path processor adds to the calls made by the inner
  closure exactly one call of the write barrier, with the slot and the value re-read
  from it, if the re-read value is strictly below the boundary and the slot is inside
  the reserved heap (young or old generation); and it adds no call otherwise. The range
  that decides is the whole reserved heap, not the older generation whose cards are
  tracked.
\<close>

theorem fast_barrier_call_iff:
  assumes "\<not> weak_ref_assert_fails v s p"
  shows "remset (final_state (FastKeepAliveClosure_do_oop_work v
            (this\<lparr>rs_inline_write_ref_field_gc := record_barrier\<rparr>) p s)) =
         remset (cl_do_oop_nv this p s) @
           (if oop_load (cl_do_oop_nv this p s) p < boundary this \<and> is_in_reserved (heap v) p
            then [BarrierCall p (oop_load (cl_do_oop_nv this p s) p)] else [])"
  using assms
  by (simp add: FastKeepAliveClosure_do_oop_work_def Let_def record_barrier_def)

text \<open>
  An old-generation slot whose young referent stays young: the fast path calls the
  barrier once, with the relocated referent.
\<close>

theorem fast_barrier_call_iff_witness:
  "\<not> weak_ref_assert_fails scenario_vm (slot_holding 0x8000 0x1000 []) 0x8000 \<and>
   remset (final_state (FastKeepAliveClosure_do_oop_work scenario_vm
     ((recording_closure survive)\<lparr>rs_inline_write_ref_field_gc := record_barrier\<rparr>)
     0x8000 (slot_holding 0x8000 0x1000 []))) =
   [InnerCall 0x8000, BarrierCall 0x8000 0x1200]"
  using fast_barrier_call_iff [of scenario_vm "slot_holding 0x8000 0x1000 []" "0x8000"
      "recording_closure survive"]
  by (simp add: scenario_defs)

text \<open>
  The slot \<open>0x2000\<close> lies in the young generation, below the boundary \<open>0x4000\<close>
  that is the young generation's upper end, and so in no older generation; its referent
  stays young. The fast path still calls the write barrier on it.
\<close>

theorem fast_barrier_young_slot_counterexample:
  "boundary (recording_closure survive) = young_end (heap scenario_vm) \<and>
   is_in_young (heap scenario_vm) 0x2000 \<and> \<not> is_in_old (heap scenario_vm) 0x2000 \<and>
   remset (final_state (FastKeepAliveClosure_do_oop_work scenario_vm (recording_closure survive)
     0x2000 (slot_holding 0x2000 0x1000 []))) = [InnerCall 0x2000, BarrierCall 0x2000 0x1200]"
  by (simp add: scenario_defs FastKeepAliveClosure_do_oop_work_def Let_def)

text \<open>
  C2, as the code has it. With the recorder as the remembered set, and when the debug
  assertion does not fire, the general processor adds to the calls made by the inner
  closure exactly one call of the write barrier, with the slot and the value re-read
  from it, if the slot is inside the reserved heap (young or old generation); and it adds
  no call otherwise.
\<close>

theorem general_barrier_call_iff:
  assumes "\<not> weak_ref_assert_fails v s p"
  shows "remset (final_state (KeepAliveClosure_do_oop_work v
            (this\<lparr>rs_inline_write_ref_field_gc := record_barrier\<rparr>) p s)) =
         remset (cl_do_oop_nv this p s) @
           (if is_in_reserved (heap v) p
            then [BarrierCall p (oop_load (cl_do_oop_nv this p s) p)] else [])"
  using assms
  by (simp add: KeepAliveClosure_do_oop_work_def Let_def record_barrier_def)

theorem general_barrier_call_iff_witness:
  "\<not> weak_ref_assert_fails scenario_vm (slot_holding 0x8000 0x1000 []) 0x8000 \<and>
   remset (final_state (KeepAliveClosure_do_oop_work scenario_vm
     ((recording_closure promote)\<lparr>rs_inline_write_ref_field_gc := record_barrier\<rparr>)
     0x8000 (slot_holding 0x8000 0x1000 []))) =
   [InnerCall 0x8000, BarrierCall 0x8000 0x9000]"
  using general_barrier_call_iff [of scenario_vm "slot_holding 0x8000 0x1000 []" "0x8000"
      "recording_closure promote"]
  by (simp add: scenario_defs)

text \<open>
  The slot \<open>0x2000\<close> lies in the young generation, not in the old one, and the general
  processor still calls the write barrier on it: membership in an older generation is
  not what decides the call.
\<close>

theorem general_barrier_young_slot_counterexample:
  "is_in_young (heap scenario_vm) 0x2000 \<and> \<not> is_in_old (heap scenario_vm) 0x2000 \<and>
   remset (final_state (KeepAliveClosure_do_oop_work scenario_vm (recording_closure survive)
     0x2000 (slot_holding 0x2000 0x1000 []))) = [InnerCall 0x2000, BarrierCall 0x2000 0x1200]"
  by (simp add: scenario_defs KeepAliveClosure_do_oop_work_def Let_def)

text \<open>
  C8. When the debug assertion does not fire, and with an inner closure and a write
  barrier that both record their calls, each processor first calls the inner closure on
  the slot and only then, if at all, the write barrier; the value handed to the barrier
  is the one the inner closure left in the slot, and the fast path compares that value,
  not the one found at entry, with the boundary.
\<close>

theorem inner_runs_before_barrier:
  assumes "\<not> weak_ref_assert_fails v s p"
    and "cl_do_oop_nv this = record_inner f"
    and "rs_inline_write_ref_field_gc this = record_barrier"
  shows "final_state (KeepAliveClosure_do_oop_work v this p s) =
           \<lparr>mem = f p (mem s),
            remset = remset s @ InnerCall p #
              (if is_in_reserved (heap v) p then [BarrierCall p (f p (mem s) p)] else [])\<rparr> \<and>
         final_state (FastKeepAliveClosure_do_oop_work v this p s) =
           \<lparr>mem = f p (mem s),
            remset = remset s @ InnerCall p #
              (if f p (mem s) p < boundary this \<and> is_in_reserved (heap v) p
               then [BarrierCall p (f p (mem s) p)] else [])\<rparr>"
  using assms
  by (simp add: KeepAliveClosure_do_oop_work_def FastKeepAliveClosure_do_oop_work_def Let_def
      record_inner_def record_barrier_def oop_load_def)

text \<open>
  The referent \<open>0x1000\<close> is below the boundary at entry and promoted to \<open>0x9000\<close> by
  the inner closure: the general processor hands \<open>0x9000\<close> to the barrier, and the fast
  path, deciding on \<open>0x9000\<close>, makes no barrier call.
\<close>

theorem inner_runs_before_barrier_witness:
  "\<not> weak_ref_assert_fails scenario_vm (slot_holding 0x8000 0x1000 []) 0x8000 \<and>
   cl_do_oop_nv (recording_closure promote) = record_inner (relocate promote) \<and>
   rs_inline_write_ref_field_gc (recording_closure promote) = record_barrier \<and>
   final_state (KeepAliveClosure_do_oop_work scenario_vm (recording_closure promote) 0x8000
     (slot_holding 0x8000 0x1000 [])) =
     \<lparr>mem = (mem (slot_holding 0x8000 0x1000 []))(0x8000 := 0x9000),
      remset = [InnerCall 0x8000, BarrierCall 0x8000 0x9000]\<rparr> \<and>
   final_state (FastKeepAliveClosure_do_oop_work scenario_vm (recording_closure promote) 0x8000
     (slot_holding 0x8000 0x1000 [])) =
     \<lparr>mem = (mem (slot_holding 0x8000 0x1000 []))(0x8000 := 0x9000),
      remset = [InnerCall 0x8000]\<rparr>"
  using inner_runs_before_barrier [of scenario_vm "slot_holding 0x8000 0x1000 []" "0x8000"
      "recording_closure promote" "relocate promote"]
  by (simp add: scenario_defs)

text \<open>
  C10. For a slot outside the reserved heap, each processor ends in the state the inner
  closure produced (or, when the debug assertion fires, in the state it started from),
  whatever the write barrier is and wherever the updated referent points: the barrier
  is not called and the remembered set is not touched by the processor.
\<close>

theorem slot_outside_heap:
  assumes "\<not> is_in_reserved (heap v) p"
  shows "final_state (KeepAliveClosure_do_oop_work v this p s) =
           (if weak_ref_assert_fails v s p then s else cl_do_oop_nv this p s) \<and>
         final_state (FastKeepAliveClosure_do_oop_work v this p s) =
           (if weak_ref_assert_fails v s p then s else cl_do_oop_nv this p s)"
  using assms
  by (simp add: KeepAliveClosure_do_oop_work_def FastKeepAliveClosure_do_oop_work_def Let_def)

theorem slot_outside_heap_witness:
  "\<not> is_in_reserved (heap scenario_vm) 0x20000 \<and>
   remset (final_state (KeepAliveClosure_do_oop_work scenario_vm (recording_closure survive)
     0x20000 (slot_holding 0x20000 0x1000 []))) = [InnerCall 0x20000] \<and>
   remset (final_state (FastKeepAliveClosure_do_oop_work scenario_vm (recording_closure survive)
     0x20000 (slot_holding 0x20000 0x1000 []))) = [InnerCall 0x20000]"
  using slot_outside_heap [of scenario_vm "0x20000" "recording_closure survive"
      "slot_holding 0x20000 0x1000 []"]
  by (simp add: scenario_defs)

subsection \<open>The debug assertion\<close>

text \<open>
  C6. In a debug build, a slot that holds the null reference, or a value that is not a
  well-formed reference, makes each processor stop with \<open>InvariantViolation\<close> in the
  very state it was called in: the inner closure has not run and the remembered set has
  not been changed.
\<close>

theorem fatal_on_null:
  assumes "ASSERT v"
    and "oop_load s p = 0 \<or> \<not> well_formed v (mem s) (oop_load s p)"
  shows "KeepAliveClosure_do_oop_work v this p s = Inl (InvariantViolation, s) \<and>
         FastKeepAliveClosure_do_oop_work v this p s = Inl (InvariantViolation, s)"
  using assms
  by (auto simp add: KeepAliveClosure_do_oop_work_def FastKeepAliveClosure_do_oop_work_def
      weak_ref_assert_fails_def is_oop_def)

theorem fatal_on_null_witness:
  "ASSERT scenario_vm \<and>
   (oop_load (slot_holding 0x8000 0 all_clean) 0x8000 = 0 \<or>
    \<not> well_formed scenario_vm (mem (slot_holding 0x8000 0 all_clean))
         (oop_load (slot_holding 0x8000 0 all_clean) 0x8000)) \<and>
   KeepAliveClosure_do_oop_work scenario_vm (card_closure survive) 0x8000
     (slot_holding 0x8000 0 all_clean) = Inl (InvariantViolation, slot_holding 0x8000 0 all_clean) \<and>
   FastKeepAliveClosure_do_oop_work scenario_vm (card_closure survive) 0x8000
     (slot_holding 0x8000 0 all_clean) = Inl (InvariantViolation, slot_holding 0x8000 0 all_clean)"
proof -
  have dbg: "ASSERT scenario_vm"
    by (simp add: scenario_vm_def)
  have null: "oop_load (slot_holding 0x8000 0 all_clean) 0x8000 = 0 \<or>
    \<not> well_formed scenario_vm (mem (slot_holding 0x8000 0 all_clean))
         (oop_load (slot_holding 0x8000 0 all_clean) 0x8000)"
    by (simp add: oop_load_def slot_holding_def)
  from fatal_on_null [OF dbg null, of "card_closure survive"] dbg null show ?thesis
    by simp
qed

subsection \<open>What a call leaves in the card table\<close>

text \<open>
  C9. Apart from what the inner closure does, a call of either processor changes no heap
  location, and, when the write barrier touches no card but the one of the slot it is
  given, no card other than the one containing the slot: the heap is the one the inner
  closure produced (the one at entry, when the debug assertion fires), and so is every
  other card.
\<close>

theorem keep_alive_frame:
  assumes "\<And>obj ct c. c \<noteq> byte_for shift p \<Longrightarrow>
           rs_inline_write_ref_field_gc this p obj ct c = ct c"
    and "c \<noteq> byte_for shift p"
  shows "mem (final_state (KeepAliveClosure_do_oop_work v this p s)) =
           mem (if weak_ref_assert_fails v s p then s else cl_do_oop_nv this p s) \<and>
         mem (final_state (FastKeepAliveClosure_do_oop_work v this p s)) =
           mem (if weak_ref_assert_fails v s p then s else cl_do_oop_nv this p s) \<and>
         remset (final_state (KeepAliveClosure_do_oop_work v this p s)) c =
           remset (if weak_ref_assert_fails v s p then s else cl_do_oop_nv this p s) c \<and>
         remset (final_state (FastKeepAliveClosure_do_oop_work v this p s)) c =
           remset (if weak_ref_assert_fails v s p then s else cl_do_oop_nv this p s) c"
  using assms
  by (simp add: KeepAliveClosure_do_oop_work_def FastKeepAliveClosure_do_oop_work_def Let_def)

text \<open>
  With the card table of the scenarios: the slot \<open>0x8000\<close> is rewritten by the inner
  closure, every other slot keeps its value, and the card \<open>0x41\<close>, next to the slot's
  card \<open>0x40\<close>, stays clean.
\<close>

theorem keep_alive_frame_witness:
  "(0x41 :: addr) \<noteq> byte_for 9 0x8000 \<and>
   mem (final_state (KeepAliveClosure_do_oop_work scenario_vm (card_closure survive) 0x8000
     (slot_holding 0x8000 0x1000 all_clean))) =
     (mem (slot_holding 0x8000 0x1000 all_clean))(0x8000 := 0x1200) \<and>
   mem (final_state (FastKeepAliveClosure_do_oop_work scenario_vm (card_closure survive) 0x8000
     (slot_holding 0x8000 0x1000 all_clean))) =
     (mem (slot_holding 0x8000 0x1000 all_clean))(0x8000 := 0x1200) \<and>
   remset (final_state (KeepAliveClosure_do_oop_work scenario_vm (card_closure survive) 0x8000
     (slot_holding 0x8000 0x1000 all_clean))) 0x41 = clean_card \<and>
   remset (final_state (FastKeepAliveClosure_do_oop_work scenario_vm (card_closure survive) 0x8000
     (slot_holding 0x8000 0x1000 all_clean))) 0x41 = clean_card"
proof -
  have barrier: "\<And>obj ct c. c \<noteq> byte_for 9 0x8000 \<Longrightarrow>
      rs_inline_write_ref_field_gc (card_closure survive) 0x8000 obj ct c = ct c"
    by (simp add: card_closure_def inline_write_ref_field_gc_def)
  have other: "(0x41 :: addr) \<noteq> byte_for 9 0x8000"
    by (simp add: byte_for_def drop_bit_eq_div)
  show ?thesis
    using keep_alive_frame [of 9 "0x8000" "card_closure survive" "0x41" scenario_vm
        "slot_holding 0x8000 0x1000 all_clean", OF barrier other] other
    by (simp add: scenario_defs)
qed

text \<open>
  C5. Let the boundary of the fast path be the upper end of the young generation, and
  let the write barrier dirty the card of the slot when it is handed the slot and the
  updated referent. If the slot lies in the old generation and the value the inner
  closure left in it points into the young generation, then after either processor the
  card containing the slot is dirty, whatever it was before.
\<close>

theorem mandatory_dirtying:
  assumes "layout_ok (heap v)"
    and "boundary this = young_end (heap v)"
    and "\<not> weak_ref_assert_fails v s p"
    and "is_in_old (heap v) p"
    and "is_in_young (heap v) (oop_load (cl_do_oop_nv this p s) p)"
    and "\<And>ct. rs_inline_write_ref_field_gc this p (oop_load (cl_do_oop_nv this p s) p) ct
            (byte_for shift p) = dirty_card"
  shows "remset (final_state (KeepAliveClosure_do_oop_work v this p s)) (byte_for shift p)
           = dirty_card \<and>
         remset (final_state (FastKeepAliveClosure_do_oop_work v this p s)) (byte_for shift p)
           = dirty_card"
proof -
  from assms(1,4) have res: "is_in_reserved (heap v) p"
    by (auto simp add: layout_ok_def is_in_old_def is_in_reserved_def)
  from assms(2,5) have low: "oop_load (cl_do_oop_nv this p s) p < boundary this"
    by (simp add: is_in_young_def)
  from assms(3) res low assms(6) show ?thesis
    by (simp add: KeepAliveClosure_do_oop_work_def FastKeepAliveClosure_do_oop_work_def Let_def)
qed

text \<open>
  The first scenario of the spec: the slot \<open>0x8000\<close> in the old generation, its
  referent moved from \<open>0x1000\<close> to \<open>0x1200\<close>.
\<close>

theorem mandatory_dirtying_witness:
  "layout_ok (heap scenario_vm) \<and>
   boundary (card_closure survive) = young_end (heap scenario_vm) \<and>
   \<not> weak_ref_assert_fails scenario_vm (slot_holding 0x8000 0x1000 all_clean) 0x8000 \<and>
   is_in_old (heap scenario_vm) 0x8000 \<and>
   is_in_young (heap scenario_vm)
     (oop_load (cl_do_oop_nv (card_closure survive) 0x8000
        (slot_holding 0x8000 0x1000 all_clean)) 0x8000) \<and>
   mem (final_state (KeepAliveClosure_do_oop_work scenario_vm (card_closure survive)
     0x8000 (slot_holding 0x8000 0x1000 all_clean))) 0x8000 = 0x1200 \<and>
   remset (final_state (KeepAliveClosure_do_oop_work scenario_vm (card_closure survive)
     0x8000 (slot_holding 0x8000 0x1000 all_clean))) (byte_for 9 0x8000) = dirty_card \<and>
   remset (final_state (FastKeepAliveClosure_do_oop_work scenario_vm (card_closure survive)
     0x8000 (slot_holding 0x8000 0x1000 all_clean))) (byte_for 9 0x8000) = dirty_card"
proof -
  have barrier: "\<And>ct. rs_inline_write_ref_field_gc (card_closure survive) 0x8000
      (oop_load (cl_do_oop_nv (card_closure survive) 0x8000
         (slot_holding 0x8000 0x1000 all_clean)) 0x8000) ct (byte_for 9 0x8000) = dirty_card"
    by (simp add: card_closure_def inline_write_ref_field_gc_def)
  have slot: "mem (final_state (KeepAliveClosure_do_oop_work scenario_vm (card_closure survive)
     0x8000 (slot_holding 0x8000 0x1000 all_clean))) 0x8000 = 0x1200"
    by (simp add: scenario_defs KeepAliveClosure_do_oop_work_def Let_def)
  show ?thesis
    using mandatory_dirtying [of scenario_vm "card_closure survive"
        "slot_holding 0x8000 0x1000 all_clean" "0x8000" 9, OF _ _ _ _ _ barrier] slot
    by (simp add: scenario_defs)
qed

text \<open>
  C3, as the code has it. A slot inside the young generation is inside the reserved
  heap, so it is not spared. When the debug assertion does not fire and the write
  barrier, handed the slot and its updated referent, dirties the card of the slot, the
  general processor leaves the card containing a young slot dirty. The fast path leaves
  that card dirty if the updated referent is below the boundary; if the updated
  referent is at or above the boundary, it leaves the remembered set as the inner
  closure left it.
\<close>

theorem young_slot_card:
  assumes "layout_ok (heap v)"
    and "is_in_young (heap v) p"
    and "\<not> weak_ref_assert_fails v s p"
    and "\<And>ct. rs_inline_write_ref_field_gc this p (oop_load (cl_do_oop_nv this p s) p) ct
            (byte_for shift p) = dirty_card"
  shows "remset (final_state (KeepAliveClosure_do_oop_work v this p s)) (byte_for shift p)
           = dirty_card \<and>
         (if oop_load (cl_do_oop_nv this p s) p < boundary this
          then remset (final_state (FastKeepAliveClosure_do_oop_work v this p s))
                 (byte_for shift p) = dirty_card
          else remset (final_state (FastKeepAliveClosure_do_oop_work v this p s)) =
                 remset (cl_do_oop_nv this p s))"
proof -
  from assms(1,2) have "is_in_reserved (heap v) p"
    by (auto simp add: layout_ok_def is_in_young_def is_in_reserved_def)
  with assms(3,4) show ?thesis
    by (simp add: KeepAliveClosure_do_oop_work_def FastKeepAliveClosure_do_oop_work_def Let_def)
qed

text \<open>
  A young slot whose referent is promoted: the general processor dirties the slot's
  card, the fast path leaves the card table clean.
\<close>

theorem young_slot_card_witness:
  "layout_ok (heap scenario_vm) \<and> is_in_young (heap scenario_vm) 0x2000 \<and>
   \<not> weak_ref_assert_fails scenario_vm (slot_holding 0x2000 0x1000 all_clean) 0x2000 \<and>
   remset (final_state (KeepAliveClosure_do_oop_work scenario_vm (card_closure promote)
     0x2000 (slot_holding 0x2000 0x1000 all_clean))) (byte_for 9 0x2000) = dirty_card \<and>
   remset (final_state (FastKeepAliveClosure_do_oop_work scenario_vm (card_closure promote)
     0x2000 (slot_holding 0x2000 0x1000 all_clean))) = all_clean"
proof -
  have barrier: "\<And>ct. rs_inline_write_ref_field_gc (card_closure promote) 0x2000
      (oop_load (cl_do_oop_nv (card_closure promote) 0x2000
         (slot_holding 0x2000 0x1000 all_clean)) 0x2000) ct (byte_for 9 0x2000) = dirty_card"
    by (simp add: card_closure_def inline_write_ref_field_gc_def)
  show ?thesis
    using young_slot_card [of scenario_vm "0x2000" "slot_holding 0x2000 0x1000 all_clean"
        "card_closure promote" 9, OF _ _ _ barrier]
    by (simp add: scenario_defs)
qed

text \<open>
  The slot \<open>0x2000\<close> lies in the young generation and its card is clean; its referent
  stays young. Both processors leave the card dirty.
\<close>

theorem young_slot_card_counterexample:
  "is_in_young (heap scenario_vm) 0x2000 \<and>
   remset (slot_holding 0x2000 0x1000 all_clean) (byte_for 9 0x2000) = clean_card \<and>
   remset (final_state (KeepAliveClosure_do_oop_work scenario_vm (card_closure survive)
     0x2000 (slot_holding 0x2000 0x1000 all_clean))) (byte_for 9 0x2000) = dirty_card \<and>
   remset (final_state (FastKeepAliveClosure_do_oop_work scenario_vm (card_closure survive)
     0x2000 (slot_holding 0x2000 0x1000 all_clean))) (byte_for 9 0x2000) = dirty_card"
  by (simp add: scenario_defs KeepAliveClosure_do_oop_work_def
      FastKeepAliveClosure_do_oop_work_def Let_def)




subsection \<open>The general processor against the fast path\<close>

text \<open>
  C1, as the code has it. From the same state, the two processors always end with the
  same heap memory, so with the same value in the slot. They end with the same
  remembered set exactly when the debug assertion fires, or the slot is outside the
  reserved heap, or the value the inner closure left in the slot is below the boundary,
  or the write barrier, handed the slot and that value, changes nothing. In the
  remaining case (slot in the reserved heap, updated referent at or above the boundary)
  only the general processor calls the barrier.
\<close>

theorem keep_alive_agree_iff:
  "mem (final_state (FastKeepAliveClosure_do_oop_work v this p s)) =
     mem (final_state (KeepAliveClosure_do_oop_work v this p s)) \<and>
   (remset (final_state (FastKeepAliveClosure_do_oop_work v this p s)) =
      remset (final_state (KeepAliveClosure_do_oop_work v this p s)) \<longleftrightarrow>
    weak_ref_assert_fails v s p \<or> \<not> is_in_reserved (heap v) p \<or>
    oop_load (cl_do_oop_nv this p s) p < boundary this \<or>
    rs_inline_write_ref_field_gc this p (oop_load (cl_do_oop_nv this p s) p)
      (remset (cl_do_oop_nv this p s)) = remset (cl_do_oop_nv this p s))"
proof (cases "weak_ref_assert_fails v s p")
  case True
  then show ?thesis
    by (simp add: FastKeepAliveClosure_do_oop_work_def KeepAliveClosure_do_oop_work_def)
next
  case runs: False
  show ?thesis
  proof (cases "is_in_reserved (heap v) p")
    case False
    with runs show ?thesis
      by (simp add: FastKeepAliveClosure_do_oop_work_def KeepAliveClosure_do_oop_work_def Let_def)
  next
    case inside: True
    show ?thesis
    proof (cases "oop_load (cl_do_oop_nv this p s) p < boundary this")
      case True
      with runs inside show ?thesis
        by (simp add: FastKeepAliveClosure_do_oop_work_def KeepAliveClosure_do_oop_work_def
            Let_def)
    next
      case False
      with runs inside have
        "final_state (FastKeepAliveClosure_do_oop_work v this p s) = cl_do_oop_nv this p s"
        by (simp add: FastKeepAliveClosure_do_oop_work_def Let_def)
      moreover from runs inside have
        "final_state (KeepAliveClosure_do_oop_work v this p s) =
           (cl_do_oop_nv this p s)\<lparr>remset := rs_inline_write_ref_field_gc this p
              (oop_load (cl_do_oop_nv this p s) p) (remset (cl_do_oop_nv this p s))\<rparr>"
        by (simp add: KeepAliveClosure_do_oop_work_def Let_def)
      ultimately show ?thesis
        using runs inside False by auto
    qed
  qed
qed

text \<open>
  The first scenario of the spec: the referent stays below the boundary, and the two
  processors agree on the card table.
\<close>

theorem keep_alive_agree_iff_witness:
  "oop_load (cl_do_oop_nv (card_closure survive) 0x8000 (slot_holding 0x8000 0x1000 all_clean))
     0x8000 < boundary (card_closure survive) \<and>
   remset (final_state (FastKeepAliveClosure_do_oop_work scenario_vm (card_closure survive)
      0x8000 (slot_holding 0x8000 0x1000 all_clean))) =
   remset (final_state (KeepAliveClosure_do_oop_work scenario_vm (card_closure survive)
      0x8000 (slot_holding 0x8000 0x1000 all_clean)))"
  using keep_alive_agree_iff [of scenario_vm "card_closure survive" "0x8000"
      "slot_holding 0x8000 0x1000 all_clean"]
  by (simp add: scenario_defs)

text \<open>
  The second scenario of the spec, under the precondition of the fast path (the young
  generation is the lowest part of the heap and the boundary is its upper end): the
  old-generation slot \<open>0x8000\<close> holds \<open>0x1000\<close>, which the inner closure promotes to
  \<open>0x9000\<close>. Both processors leave \<open>0x9000\<close> in the slot; the general processor
  leaves the slot's card dirty, the fast path leaves it clean.
\<close>

theorem keep_alive_equivalence_counterexample:
  "layout_ok (heap scenario_vm) \<and>
   boundary (card_closure promote) = young_end (heap scenario_vm) \<and>
   is_in_old (heap scenario_vm) 0x8000 \<and>
   remset (final_state (KeepAliveClosure_do_oop_work scenario_vm (card_closure promote)
      0x8000 (slot_holding 0x8000 0x1000 all_clean))) (byte_for 9 0x8000) = dirty_card \<and>
   remset (final_state (FastKeepAliveClosure_do_oop_work scenario_vm (card_closure promote)
      0x8000 (slot_holding 0x8000 0x1000 all_clean))) (byte_for 9 0x8000) = clean_card"
  by (simp add: scenario_defs KeepAliveClosure_do_oop_work_def
      FastKeepAliveClosure_do_oop_work_def Let_def)

end
